theory Spec2Isabelle
  imports Complex_Main
begin

section \<open>Numbers and vectors\<close>

text \<open>
  The program computes with JavaScript numbers. They are modelled as the real numbers:
  every operation is the exact one, and the values \<open>NaN\<close> and \<open>Infinity\<close> do not
  exist. Each division of the source that is reached with a zero divisor is pointed out
  where it occurs. Rounding, underflow and overflow of the doubles are not part of the
  model.

  \<open>THREE.Vector3\<close> is a mutable object with the fields \<open>x\<close>, \<open>y\<close>, \<open>z\<close>. The
  source clones a vector before every update whose operand is shared, so vectors are
  values here. The operations below are the ones of the library that the source calls.
\<close>

record vec3 =
  vx :: real
  vy :: real
  vz :: real

definition vec :: "real \<Rightarrow> real \<Rightarrow> real \<Rightarrow> vec3" where
  "vec a b c = \<lparr>vx = a, vy = b, vz = c\<rparr>"

definition sub :: "vec3 \<Rightarrow> vec3 \<Rightarrow> vec3" where
  "sub u v = vec (vx u - vx v) (vy u - vy v) (vz u - vz v)"

definition add :: "vec3 \<Rightarrow> vec3 \<Rightarrow> vec3" where
  "add u v = vec (vx u + vx v) (vy u + vy v) (vz u + vz v)"

definition multiplyScalar :: "vec3 \<Rightarrow> real \<Rightarrow> vec3" where
  "multiplyScalar v s = vec (vx v * s) (vy v * s) (vz v * s)"

definition addScaledVector :: "vec3 \<Rightarrow> vec3 \<Rightarrow> real \<Rightarrow> vec3" where
  "addScaledVector p v s = vec (vx p + vx v * s) (vy p + vy v * s) (vz p + vz v * s)"

definition dot :: "vec3 \<Rightarrow> vec3 \<Rightarrow> real" where
  "dot u v = vx u * vx v + vy u * vy v + vz u * vz v"

definition cross :: "vec3 \<Rightarrow> vec3 \<Rightarrow> vec3" where
  "cross u v = vec (vy u * vz v - vz u * vy v)
                   (vz u * vx v - vx u * vz v)
                   (vx u * vy v - vy u * vx v)"

definition lengthSq :: "vec3 \<Rightarrow> real" where
  "lengthSq v = vx v * vx v + vy v * vy v + vz v * vz v"

definition vlength :: "vec3 \<Rightarrow> real" where
  "vlength v = sqrt (lengthSq v)"

definition distanceToSquared :: "vec3 \<Rightarrow> vec3 \<Rightarrow> real" where
  "distanceToSquared u v =
     (let dx = vx u - vx v; dy = vy u - vy v; dz = vz u - vz v
      in dx * dx + dy * dy + dz * dz)"

text \<open>
  \<open>Vector3.normalize\<close> is \<open>divideScalar(length() || 1)\<close>, and \<open>divideScalar(s)\<close> is
  \<open>multiplyScalar(1 / s)\<close>: the zero vector is divided by one and stays the zero vector.
\<close>

definition vnormalize :: "vec3 \<Rightarrow> vec3" where
  "vnormalize v =
     (let l = vlength v in multiplyScalar v (1 / (if l = 0 then 1 else l)))"

definition setLength :: "vec3 \<Rightarrow> real \<Rightarrow> vec3" where
  "setLength v l = multiplyScalar (vnormalize v) l"

section \<open>Vector and triangle helpers (physics/math)\<close>

definition normalize :: "vec3 \<Rightarrow> vec3" where
  "normalize v = vnormalize v"

definition projectOnto :: "vec3 \<Rightarrow> vec3 \<Rightarrow> vec3" where
  "projectOnto v n =
     (let nn = lengthSq n
      in if nn = 0 then vec 0 0 0 else multiplyScalar n (dot v n / nn))"

definition reflect :: "vec3 \<Rightarrow> vec3 \<Rightarrow> vec3" where
  "reflect v n =
     (let nUnit = normalize n in sub v (multiplyScalar nUnit (2 * dot v nUnit)))"

text \<open>
  In the program the products of the cross product can underflow to 0 or overflow, which
  the exact products here never do. When all three components have become 0,
  \<open>normalize\<close> divides by \<open>length() || 1 = 1\<close> and the result is the zero vector
  (\<open>vnormalize_zero\<close> below). No statement of this theory says that a normal
  returned by \<open>triangleNormal\<close> has unit length or points upward.
\<close>

definition triangleNormal :: "vec3 \<Rightarrow> vec3 \<Rightarrow> vec3 \<Rightarrow> vec3" where
  "triangleNormal a b c =
     (let ab = sub b a; ac = sub c a in vnormalize (cross ab ac))"

definition triangleCentroid :: "vec3 \<Rightarrow> vec3 \<Rightarrow> vec3 \<Rightarrow> vec3" where
  "triangleCentroid a b c =
     vec ((vx a + vx b + vx c) / 3) ((vy a + vy b + vy c) / 3) ((vz a + vz b + vz c) / 3)"

definition planeSignedDistance :: "vec3 \<Rightarrow> vec3 \<Rightarrow> vec3 \<Rightarrow> real" where
  "planeSignedDistance p p0 n = dot (vnormalize n) (sub p p0)"

definition pointInTriangle :: "vec3 \<Rightarrow> vec3 \<Rightarrow> vec3 \<Rightarrow> vec3 \<Rightarrow> bool" where
  "pointInTriangle p a b c =
     (let v0 = sub c a; v1 = sub b a; v2 = sub p a;
          dot00 = dot v0 v0; dot01 = dot v0 v1; dot02 = dot v0 v2;
          dot11 = dot v1 v1; dot12 = dot v1 v2;
          denom = dot00 * dot11 - dot01 * dot01
      in if denom = 0 then False
         else let u = (dot11 * dot02 - dot01 * dot12) / denom;
                  v = (dot00 * dot12 - dot01 * dot02) / denom
              in u \<ge> - 0.000001 \<and> v \<ge> - 0.000001 \<and> u + v \<le> 1 + 0.000001)"

definition clampMagnitude :: "vec3 \<Rightarrow> real \<Rightarrow> vec3" where
  "clampMagnitude v m = (let len = vlength v in if len \<le> m then v else setLength v m)"

record face =
  face_id :: nat
  face_a :: vec3
  face_b :: vec3
  face_c :: vec3
  face_normal :: vec3
  face_centroid :: vec3

section \<open>Ground query (Ball: getGroundInfo)\<close>

text \<open>The result object \<open>{ y, normal, id }\<close> of the query; \<open>null\<close> is \<open>None\<close>.\<close>

record ground =
  ground_y :: real
  ground_normal :: vec3
  ground_id :: nat

text \<open>
  The \<open>for (const f of faces)\<close> loop, with the variable \<open>best\<close> as accumulator. The
  division by \<open>n.y\<close> is only reached when \<open>|n.y| \<ge> 1e-4\<close>.
\<close>

fun getGroundInfo_loop :: "real \<Rightarrow> real \<Rightarrow> ground option \<Rightarrow> face list \<Rightarrow> ground option" where
  "getGroundInfo_loop x z best [] = best"
| "getGroundInfo_loop x z best (f # fs) =
     (let n = face_normal f
      in if \<bar>vy n\<bar> < 0.0001 then getGroundInfo_loop x z best fs
         else
           let dx = x - vx (face_a f);
               dz = z - vz (face_a f);
               y = vy (face_a f) - (vx n * dx + vz n * dz) / vy n;
               tmp = vec x y z
           in if \<not> pointInTriangle tmp (face_a f) (face_b f) (face_c f)
              then getGroundInfo_loop x z best fs
              else if (case best of None \<Rightarrow> True | Some b \<Rightarrow> y > ground_y b)
              then getGroundInfo_loop x z
                     (Some \<lparr>ground_y = y, ground_normal = n, ground_id = face_id f\<rparr>) fs
              else getGroundInfo_loop x z best fs)"

definition getGroundInfo :: "real \<Rightarrow> real \<Rightarrow> face list \<Rightarrow> ground option" where
  "getGroundInfo x z faces = getGroundInfo_loop x z None faces"

text \<open>
  The notions the ground query is described with: the height at which the vertical line
  through \<open>(x, z)\<close> meets the plane of a face, the faces the scan does not skip, and the
  result built from such a face.
\<close>

definition planeHeight :: "real \<Rightarrow> real \<Rightarrow> face \<Rightarrow> real" where
  "planeHeight x z f =
     vy (face_a f) - (vx (face_normal f) * (x - vx (face_a f))
                      + vz (face_normal f) * (z - vz (face_a f))) / vy (face_normal f)"

definition supports :: "real \<Rightarrow> real \<Rightarrow> face \<Rightarrow> bool" where
  "supports x z f \<longleftrightarrow>
     \<bar>vy (face_normal f)\<bar> \<ge> 0.0001 \<and>
     pointInTriangle (vec x (planeHeight x z f) z) (face_a f) (face_b f) (face_c f)"

definition groundOf :: "real \<Rightarrow> real \<Rightarrow> face \<Rightarrow> ground" where
  "groundOf x z f =
     \<lparr>ground_y = planeHeight x z f, ground_normal = face_normal f, ground_id = face_id f\<rparr>"

text \<open>
  The ground query as the specification words it: only faces whose normal's vertical
  component exceeds the epsilon take part.
\<close>

definition supports_upward :: "real \<Rightarrow> real \<Rightarrow> face \<Rightarrow> bool" where
  "supports_upward x z f \<longleftrightarrow>
     vy (face_normal f) > 0.0001 \<and>
     pointInTriangle (vec x (planeHeight x z f) z) (face_a f) (face_b f) (face_c f)"

section \<open>Terrain generation (Terrain: buildTerrainFaces)\<close>

datatype TerrainType = Hills | Smooth | Valleys | Rough

text \<open>\<open>Math.sin\<close>, \<open>Math.cos\<close> and \<open>Math.floor\<close> are the functions of the reals.\<close>

definition pseudoRandom :: "real \<Rightarrow> real \<Rightarrow> real" where
  "pseudoRandom x y =
     (let seed = sin (x * 12.9898 + y * 78.233) * 43758.5453
      in seed - of_int \<lfloor>seed\<rfloor>)"

fun generateTerrainHeight :: "real \<Rightarrow> real \<Rightarrow> TerrainType \<Rightarrow> real \<Rightarrow> real" where
  "generateTerrainHeight i j Smooth height = 0"
| "generateTerrainHeight i j Hills height =
     (let hill1 = sin (i * 0.5) * cos (j * 0.5) * 0.8;
          hill2 = sin (i * 0.3) * cos (j * 0.4) * 0.6
      in (hill1 + hill2) * height * 0.5)"
| "generateTerrainHeight i j Valleys height =
     (let valley1 = sin (i * 0.4) * cos (j * 0.4) * 1.2;
          valley2 = sin (i * 0.7) * cos (j * 0.6) * 0.8
      in (valley1 + valley2) * height * 0.8)"
| "generateTerrainHeight i j Rough height =
     (let noise1 = sin (i * 0.8) * cos (j * 0.8) * 0.4;
          noise2 = sin (i * 1.3) * cos (j * 0.9) * 0.3;
          noise3 = sin (i * 2.1) * cos (j * 1.8) * 0.15;
          deterministicNoise = (pseudoRandom i j - 0.5) * 0.3
      in (noise1 + noise2 + noise3 + deterministicNoise) * height * 0.6)"

text \<open>
  The generator has no validation of its parameters and no \<open>throw\<close>. The only way it
  can fail is the runtime's \<open>TypeError\<close> when a vertex is read that the first pair of
  loops did not store; every read of the grid is therefore checked.
\<close>

datatype error = TypeError

text \<open>
  The division count is an integer, the loop counters are naturals. \<open>step\<close> is
  \<open>size / divisions\<close>; for \<open>divisions = 0\<close> the source gets an infinity (or \<open>NaN\<close>)
  where the model has 0, in the only vertex stored in that case, which no face uses.

  First pair of loops: \<open>vertices[i][j] = new Vector3(x, y, z)\<close> stores at the index that
  equals the current length of the row, so the store appends.
\<close>

function vertexRow ::
  "real \<Rightarrow> int \<Rightarrow> real \<Rightarrow> TerrainType \<Rightarrow> real \<Rightarrow> nat \<Rightarrow> nat \<Rightarrow> vec3 list \<Rightarrow> vec3 list" where
  "vertexRow sz divisions height ty step i j row =
     (if int j \<le> divisions
      then let x = - sz / 2 + real i * step;
               z = - sz / 2 + real j * step;
               y = generateTerrainHeight (real i) (real j) ty height
           in vertexRow sz divisions height ty step i (j + 1) (row @ [vec x y z])
      else row)"
  by pat_completeness auto
termination
  by (relation "measure (\<lambda>(sz, divisions, height, ty, step, i, j, row). nat (divisions + 1 - int j))")
     auto

function vertexGrid ::
  "real \<Rightarrow> int \<Rightarrow> real \<Rightarrow> TerrainType \<Rightarrow> real \<Rightarrow> nat \<Rightarrow> vec3 list list \<Rightarrow> vec3 list list" where
  "vertexGrid sz divisions height ty step i vertices =
     (if int i \<le> divisions
      then vertexGrid sz divisions height ty step (i + 1)
             (vertices @ [vertexRow sz divisions height ty step i 0 []])
      else vertices)"
  by pat_completeness auto
termination
  by (relation "measure (\<lambda>(sz, divisions, height, ty, step, i, vertices). nat (divisions + 1 - int i))")
     auto

definition vertexAt :: "vec3 list list \<Rightarrow> nat \<Rightarrow> nat \<Rightarrow> vec3 option" where
  "vertexAt vertices i j =
     (if i < length vertices \<and> j < length (vertices ! i) then Some (vertices ! i ! j) else None)"

text \<open>
  Second pair of loops, with the array \<open>faces\<close> and the counter \<open>id\<close> as state: each
  cell pushes two faces and takes two identifiers.
\<close>

function facesRow ::
  "vec3 list list \<Rightarrow> int \<Rightarrow> nat \<Rightarrow> nat \<Rightarrow> face list \<times> nat \<Rightarrow> error + face list \<times> nat" where
  "facesRow vertices divisions i j (faces, ident) =
     (if int j < divisions
      then case (vertexAt vertices i j, vertexAt vertices (i + 1) j,
                 vertexAt vertices i (j + 1), vertexAt vertices (i + 1) (j + 1)) of
             (Some a, Some b, Some c, Some d) \<Rightarrow>
               let f1n = triangleNormal a c b;
                   f1c = triangleCentroid a c b;
                   faces1 = faces @ [\<lparr>face_id = ident, face_a = a, face_b = c, face_c = b,
                                       face_normal = f1n, face_centroid = f1c\<rparr>];
                   f2n = triangleNormal b c d;
                   f2c = triangleCentroid b c d;
                   faces2 = faces1 @ [\<lparr>face_id = ident + 1, face_a = b, face_b = c, face_c = d,
                                        face_normal = f2n, face_centroid = f2c\<rparr>]
               in facesRow vertices divisions i (j + 1) (faces2, ident + 2)
           | _ \<Rightarrow> Inl TypeError
      else Inr (faces, ident))"
  by pat_completeness auto
termination
  by (relation "measure (\<lambda>(vertices, divisions, i, j, st). nat (divisions - int j))") auto

function facesGrid ::
  "vec3 list list \<Rightarrow> int \<Rightarrow> nat \<Rightarrow> face list \<times> nat \<Rightarrow> error + face list \<times> nat" where
  "facesGrid vertices divisions i st =
     (if int i < divisions
      then case facesRow vertices divisions i 0 st of
             Inl e \<Rightarrow> Inl e
           | Inr st' \<Rightarrow> facesGrid vertices divisions (i + 1) st'
      else Inr st)"
  by pat_completeness auto
termination
  by (relation "measure (\<lambda>(vertices, divisions, i, st). nat (divisions - int i))") auto

definition buildTerrainFaces :: "real \<Rightarrow> int \<Rightarrow> real \<Rightarrow> TerrainType \<Rightarrow> error + face list" where
  "buildTerrainFaces sz divisions height ty =
     (let step = sz / of_int divisions;
          vertices = vertexGrid sz divisions height ty step 0 []
      in case facesGrid vertices divisions 0 ([], 0) of
           Inl e \<Rightarrow> Inl e
         | Inr (faces, ident) \<Rightarrow> Inr faces)"







text \<open>
  The grid vertex and the two faces of a cell in closed form, as functions of the grid
  indices and the parameters alone. The generated list is compared with them below.
\<close>

definition gridVertex :: "real \<Rightarrow> int \<Rightarrow> real \<Rightarrow> TerrainType \<Rightarrow> nat \<Rightarrow> nat \<Rightarrow> vec3" where
  "gridVertex sz divisions height ty i j =
     vec (- sz / 2 + real i * (sz / of_int divisions))
         (generateTerrainHeight (real i) (real j) ty height)
         (- sz / 2 + real j * (sz / of_int divisions))"

definition cellFaces :: "real \<Rightarrow> int \<Rightarrow> real \<Rightarrow> TerrainType \<Rightarrow> nat \<Rightarrow> nat \<Rightarrow> face list" where
  "cellFaces sz divisions height ty i j =
     (let a = gridVertex sz divisions height ty i j;
          b = gridVertex sz divisions height ty (i + 1) j;
          c = gridVertex sz divisions height ty i (j + 1);
          d = gridVertex sz divisions height ty (i + 1) (j + 1);
          k = 2 * (i * nat divisions + j)
      in [\<lparr>face_id = k, face_a = a, face_b = c, face_c = b,
           face_normal = triangleNormal a c b, face_centroid = triangleCentroid a c b\<rparr>,
          \<lparr>face_id = k + 1, face_a = b, face_b = c, face_c = d,
           face_normal = triangleNormal b c d, face_centroid = triangleCentroid b c d\<rparr>])"

definition gridFaces :: "real \<Rightarrow> int \<Rightarrow> real \<Rightarrow> TerrainType \<Rightarrow> face list" where
  "gridFaces sz divisions height ty =
     concat (map (\<lambda>i. concat (map (\<lambda>j. cellFaces sz divisions height ty i j)
                                   [0..<nat divisions]))
                 [0..<nat divisions])"

section \<open>The ball (Ball: state, effects and useFrame)\<close>

text \<open>
  The argument object of \<open>onVectorUpdate\<close>, and the state \<open>impact\<close> of the legacy mode.
\<close>

record vectors =
  vec_velocity :: vec3
  vec_normal :: vec3
  vec_projection :: vec3
  vec_reflection :: vec3

record impact =
  impact_point :: vec3
  impact_incoming :: vec3
  impact_normal :: vec3
  impact_projection :: vec3
  impact_reflection :: vec3
  impact_until :: real

text \<open>
  What the component keeps across frames: the position of the mesh, the refs, the two
  React states, and the calls it has made to its two callbacks, oldest first (both
  callbacks are taken as given, as the page gives them).
\<close>

record ball =
  position :: vec3
  velocity :: vec3
  contactRef :: vec3
  incomingRef :: vec3
  normalRef :: vec3
  projectionRef :: vec3
  reflectionRef :: vec3
  impactState :: "impact option"
  currentFaceId :: "nat option"
  lastVectorUpdate :: real
  vectorUpdates :: "vectors list"
  highlights :: "nat option list"

record props =
  faces :: "face list"
  radius :: real
  startPos :: vec3
  launched :: bool
  keyboardControl :: bool

text \<open>The pressed keys: an absent entry of \<open>keys.current\<close> counts as not pressed.\<close>

record keys =
  key_w :: bool
  key_a :: bool
  key_s :: bool
  key_d :: bool

definition zeroVectors :: vectors where
  "zeroVectors = \<lparr>vec_velocity = vec 0 0 0, vec_normal = vec 0 0 0,
                   vec_projection = vec 0 0 0, vec_reflection = vec 0 0 0\<rparr>"

text \<open>The effect that places the ball on mount, on reset and when the faces change.\<close>

definition initialize :: "props \<Rightarrow> ball \<Rightarrow> ball" where
  "initialize P s =
     (if faces P = [] then s
      else
        let g = getGroundInfo (vx (startPos P)) (vz (startPos P)) (faces P);
            y = (case g of Some gi \<Rightarrow> ground_y gi + radius P | None \<Rightarrow> vy (startPos P))
        in s\<lparr>position := vec (vx (startPos P)) y (vz (startPos P)),
              velocity := vec 0 0 0,
              contactRef := vec (vx (startPos P)) (y - radius P) (vz (startPos P)),
              normalRef := (case g of Some gi \<Rightarrow> ground_normal gi | None \<Rightarrow> vec 0 1 0),
              projectionRef := vec 0 0 0,
              reflectionRef := vec 0 0 0,
              impactState := None,
              currentFaceId := (case g of Some gi \<Rightarrow> Some (ground_id gi) | None \<Rightarrow> None),
              highlights := highlights s @ (case g of Some gi \<Rightarrow> [Some (ground_id gi)] | None \<Rightarrow> [])\<rparr>)"

subsection \<open>Keyboard mode\<close>

definition inputVector :: "keys \<Rightarrow> vec3" where
  "inputVector K =
     vec ((if key_d K then 1 else 0) - (if key_a K then 1 else 0))
         0
         ((if key_w K then 1 else 0) - (if key_s K then 1 else 0))"

text \<open>The horizontal velocity from the keys, or the damping when no key is pressed.\<close>

definition applyInput :: "keys \<Rightarrow> vec3 \<Rightarrow> vec3" where
  "applyInput K v =
     (let speed = 5; input = inputVector K
      in if lengthSq input > 0
         then let input' = multiplyScalar (vnormalize input) speed
              in v\<lparr>vx := vx input', vz := vz input'\<rparr>
         else v\<lparr>vx := vx v * 0.9, vz := vz v * 0.9\<rparr>)"

text \<open>\<open>velocityRef.current.y += gravity * delta\<close>\<close>

definition applyGravity :: "real \<Rightarrow> vec3 \<Rightarrow> vec3" where
  "applyGravity delta v = (let gravity = - 9.81 in v\<lparr>vy := vy v + gravity * delta\<rparr>)"

text \<open>The state after input, gravity and \<open>position.addScaledVector(velocity, delta)\<close>.\<close>

definition integrate :: "keys \<Rightarrow> real \<Rightarrow> ball \<Rightarrow> ball" where
  "integrate K delta s =
     (let v = applyGravity delta (applyInput K (velocity s))
      in s\<lparr>velocity := v, position := addScaledVector (position s) v delta\<rparr>)"

definition outOfBounds :: "vec3 \<Rightarrow> bool" where
  "outOfBounds pos =
     (let terrainSize = 10; resetThreshold = - 5
      in vy pos < resetThreshold \<or> \<bar>vx pos\<bar> > terrainSize * 0.6 \<or> \<bar>vz pos\<bar> > terrainSize * 0.6)"

text \<open>The branch that puts the ball back at its start; it ends the frame.\<close>

definition autoReset :: "props \<Rightarrow> ball \<Rightarrow> ball" where
  "autoReset P s =
     (let g = getGroundInfo (vx (startPos P)) (vz (startPos P)) (faces P);
          resetY = (case g of Some gi \<Rightarrow> ground_y gi + radius P | None \<Rightarrow> vy (startPos P))
      in s\<lparr>position := vec (vx (startPos P)) resetY (vz (startPos P)),
            velocity := vec 0 0 0,
            vectorUpdates := vectorUpdates s @ [zeroVectors],
            currentFaceId := None,
            highlights := highlights s @ [None]\<rparr>)"

text \<open>The branch \<open>g && position.y <= g.y + radius\<close>.\<close>

definition resolveContact :: "props \<Rightarrow> real \<Rightarrow> ground \<Rightarrow> ball \<Rightarrow> ball" where
  "resolveContact P now g s =
     (let pos = (position s)\<lparr>vy := ground_y g + radius P\<rparr>;
          v = (velocity s)\<lparr>vy := max 0 (vy (velocity s))\<rparr>;
          horizontalVel = vec (vx v) 0 (vz v);
          s1 = s\<lparr>position := pos, velocity := v,
                  contactRef := vec (vx pos) (ground_y g) (vz pos),
                  normalRef := ground_normal g,
                  incomingRef := horizontalVel,
                  projectionRef := projectOnto horizontalVel (ground_normal g),
                  reflectionRef := reflect horizontalVel (ground_normal g)\<rparr>;
          s2 = (if now - lastVectorUpdate s1 > 50
                then s1\<lparr>vectorUpdates := vectorUpdates s1 @
                           [\<lparr>vec_velocity = incomingRef s1, vec_normal = normalRef s1,
                             vec_projection = projectionRef s1,
                             vec_reflection = reflectionRef s1\<rparr>],
                         lastVectorUpdate := now\<rparr>
                else s1)
      in if Some (ground_id g) \<noteq> currentFaceId s2
         then s2\<lparr>currentFaceId := Some (ground_id g),
                  highlights := highlights s2 @ [Some (ground_id g)]\<rparr>
         else s2)"

text \<open>The \<open>else\<close> branch: no face below, or the ball above it.\<close>

definition clearContact :: "real \<Rightarrow> ball \<Rightarrow> ball" where
  "clearContact now s =
     (let s1 = (if currentFaceId s \<noteq> None
                then s\<lparr>currentFaceId := None, highlights := highlights s @ [None]\<rparr>
                else s)
      in if now - lastVectorUpdate s1 > 100
         then s1\<lparr>vectorUpdates := vectorUpdates s1 @ [zeroVectors], lastVectorUpdate := now\<rparr>
         else s1)"

definition keyboardStep :: "props \<Rightarrow> keys \<Rightarrow> real \<Rightarrow> real \<Rightarrow> ball \<Rightarrow> ball" where
  "keyboardStep P K now delta s =
     (let s1 = integrate K delta s
      in if outOfBounds (position s1) then autoReset P s1
         else case getGroundInfo (vx (position s1)) (vz (position s1)) (faces P) of
                Some g \<Rightarrow>
                  if vy (position s1) \<le> ground_y g + radius P
                  then resolveContact P now g s1
                  else clearContact now s1
              | None \<Rightarrow> clearContact now s1)"

subsection \<open>Legacy launch mode\<close>

text \<open>
  The loop over the nearby faces: the first face that passes the three tests is handled
  and ends the loop (\<open>break\<close>). \<open>r\<close> is the radius.
\<close>

fun legacyLoop :: "real \<Rightarrow> real \<Rightarrow> face list \<Rightarrow> ball \<Rightarrow> ball" where
  "legacyLoop r now [] s = s"
| "legacyLoop r now (f # fs) s =
     (let n = face_normal f; p = position s; v = velocity s;
          approaching = dot v n < 0
      in if \<not> approaching then legacyLoop r now fs s
         else
           let dist = dot n (sub p (face_a f))
           in if dist > r then legacyLoop r now fs s
              else
                let projPoint = sub p (multiplyScalar n dist)
                in if \<not> pointInTriangle projPoint (face_a f) (face_b f) (face_c f)
                   then legacyLoop r now fs s
                   else
                     let penetration = r - dist;
                         p' = (if penetration > 0
                               then add p (multiplyScalar n (penetration + 0.001)) else p);
                         incoming = v;
                         projection = projectOnto incoming n;
                         reflection = reflect incoming n
                     in s\<lparr>position := p', velocity := reflection,
                           impactState := Some \<lparr>impact_point = projPoint,
                                                impact_incoming = incoming,
                                                impact_normal = n,
                                                impact_projection = projection,
                                                impact_reflection = reflection,
                                                impact_until = now + 1500\<rparr>,
                           highlights := highlights s @ [Some (face_id f)]\<rparr>)"

text \<open>
  The faces the loop runs over, and the state after gravity and integration. The last
  test of the frame reads \<open>impact\<close> as it was when the frame began, and its
  \<open>setImpact(null)\<close> comes after the one of the loop. Both readings of the clock in a
  frame are \<open>now\<close>.
\<close>

definition nearbyFaces :: "props \<Rightarrow> vec3 \<Rightarrow> face list" where
  "nearbyFaces P p =
     (let maxCheckDistance = radius P + 2.0
      in if length (faces P) > 100
         then filter (\<lambda>f. distanceToSquared (face_centroid f) p
                            < maxCheckDistance * maxCheckDistance) (faces P)
         else faces P)"

definition legacyIntegrate :: "real \<Rightarrow> ball \<Rightarrow> ball" where
  "legacyIntegrate delta s =
     (let v = (velocity s)\<lparr>vy := vy (velocity s) - 9.8 * delta\<rparr>
      in s\<lparr>velocity := v, position := addScaledVector (position s) v delta\<rparr>)"

definition legacyStep :: "props \<Rightarrow> real \<Rightarrow> real \<Rightarrow> ball \<Rightarrow> ball" where
  "legacyStep P now delta s =
     (if \<not> launched P then s
      else
        let s1 = legacyIntegrate delta s
        in if lengthSq (velocity s1) < 0.01 then s1
           else
             let s2 = legacyLoop (radius P) now (nearbyFaces P (position s1)) s1
             in case impactState s of
                  Some im \<Rightarrow> if now > impact_until im then s2\<lparr>impactState := None\<rparr> else s2
                | None \<Rightarrow> s2)"

subsection \<open>One frame\<close>

definition useFrame :: "props \<Rightarrow> keys \<Rightarrow> real \<Rightarrow> real \<Rightarrow> ball \<Rightarrow> ball" where
  "useFrame P K now dt s =
     (let delta = min dt (1 / 60)
      in if keyboardControl P then keyboardStep P K now delta s
         else legacyStep P now delta s)"

text \<open>
  The three tests of the legacy loop on one face, for a ball at \<open>p\<close> with velocity \<open>v\<close>
  and radius \<open>r\<close>.
\<close>

definition triggers :: "real \<Rightarrow> vec3 \<Rightarrow> vec3 \<Rightarrow> face \<Rightarrow> bool" where
  "triggers r p v f \<longleftrightarrow>
     dot v (face_normal f) < 0 \<and>
     dot (face_normal f) (sub p (face_a f)) \<le> r \<and>
     pointInTriangle (sub p (multiplyScalar (face_normal f)
                                (dot (face_normal f) (sub p (face_a f)))))
       (face_a f) (face_b f) (face_c f)"

text \<open>
  The effect of the collision branch of the legacy loop on a face \<open>f\<close>: the push out
  of the plane, the reflected velocity, the new \<open>impact\<close> and the highlight.
\<close>

definition bounce :: "real \<Rightarrow> real \<Rightarrow> face \<Rightarrow> ball \<Rightarrow> ball" where
  "bounce r now f s =
     (let n = face_normal f; dist = dot n (sub (position s) (face_a f))
      in s\<lparr>position := (if r - dist > 0
                          then add (position s) (multiplyScalar n (r - dist + 0.001))
                          else position s),
            velocity := reflect (velocity s) n,
            impactState := Some \<lparr>impact_point = sub (position s) (multiplyScalar n dist),
                                 impact_incoming = velocity s,
                                 impact_normal = n,
                                 impact_projection = projectOnto (velocity s) n,
                                 impact_reflection = reflect (velocity s) n,
                                 impact_until = now + 1500\<rparr>,
            highlights := highlights s @ [Some (face_id f)]\<rparr>)"

text \<open>The array \<open>vertices\<close> after the first pair of loops, in closed form.\<close>

definition gridVertices :: "real \<Rightarrow> int \<Rightarrow> real \<Rightarrow> TerrainType \<Rightarrow> vec3 list list" where
  "gridVertices sz d h ty =
     map (\<lambda>i. map (gridVertex sz d h ty i) [0..<nat (d + 1)]) [0..<nat (d + 1)]"

section \<open>Example inputs\<close>

text \<open>
  Two triangles over the same footprint in the plane \<open>y = 0\<close>, one wound so that its
  normal \<open>(b - a) \<times> (c - a)\<close> points up, one so that it points down, and a third one
  at height 1.
\<close>

abbreviation upFace :: face where
  "upFace \<equiv> \<lparr>face_id = 0, face_a = vec 0 0 0, face_b = vec 0 0 1, face_c = vec 1 0 0,
              face_normal = vec 0 1 0, face_centroid = vec (1 / 3) 0 (1 / 3)\<rparr>"

abbreviation downFace :: face where
  "downFace \<equiv> \<lparr>face_id = 0, face_a = vec 0 0 0, face_b = vec 1 0 0, face_c = vec 0 0 1,
                face_normal = vec 0 (- 1) 0, face_centroid = vec (1 / 3) 0 (1 / 3)\<rparr>"

abbreviation highFace :: face where
  "highFace \<equiv> \<lparr>face_id = 1, face_a = vec 0 1 0, face_b = vec 0 1 1, face_c = vec 1 1 0,
                face_normal = vec 0 1 0, face_centroid = vec (1 / 3) 1 (1 / 3)\<rparr>"

text \<open>Pressed keys, properties of the component, and states of the ball.\<close>

abbreviation noKeys :: keys where
  "noKeys \<equiv> \<lparr>key_w = False, key_a = False, key_s = False, key_d = False\<rparr>"

abbreviation dKey :: keys where
  "dKey \<equiv> \<lparr>key_w = False, key_a = False, key_s = False, key_d = True\<rparr>"

abbreviation keyboardProps :: props where
  "keyboardProps \<equiv> \<lparr>faces = [upFace], radius = 1 / 4, startPos = vec (1 / 4) 2 (1 / 4),
                     launched = False, keyboardControl = True\<rparr>"

abbreviation legacyProps :: props where
  "legacyProps \<equiv> \<lparr>faces = [upFace], radius = 1 / 4, startPos = vec (1 / 4) 2 (1 / 4),
                   launched = True, keyboardControl = False\<rparr>"

abbreviation contactVectors :: vectors where
  "contactVectors \<equiv> \<lparr>vec_velocity = vec 5 0 0, vec_normal = vec 0 1 0,
                       vec_projection = vec 0 0 0, vec_reflection = vec 5 0 0\<rparr>"

abbreviation restingBall :: ball where
  "restingBall \<equiv> \<lparr>position = vec (1 / 4) (1 / 4) (1 / 4), velocity = vec 0 0 0,
                   contactRef = vec (1 / 4) 0 (1 / 4), incomingRef = vec 0 0 0,
                   normalRef = vec 0 1 0, projectionRef = vec 0 0 0, reflectionRef = vec 0 0 0,
                   impactState = None, currentFaceId = Some 0, lastVectorUpdate = 0,
                   vectorUpdates = [], highlights = [Some 0]\<rparr>"

abbreviation rollingBall :: ball where
  "rollingBall \<equiv> \<lparr>position = vec (17 / 20) (1 / 4) (1 / 50), velocity = vec 5 0 0,
                   contactRef = vec (17 / 20) 0 (1 / 50), incomingRef = vec 5 0 0,
                   normalRef = vec 0 1 0, projectionRef = vec 0 0 0, reflectionRef = vec 5 0 0,
                   impactState = None, currentFaceId = Some 0, lastVectorUpdate = 0,
                   vectorUpdates = [], highlights = [Some 0]\<rparr>"

abbreviation fallingBall :: ball where
  "fallingBall \<equiv> \<lparr>position = vec (1 / 4) 2 (1 / 4), velocity = vec 0 0 0,
                   contactRef = vec (1 / 4) 0 (1 / 4), incomingRef = vec 0 0 0,
                   normalRef = vec 0 1 0, projectionRef = vec 0 0 0, reflectionRef = vec 0 0 0,
                   impactState = None, currentFaceId = None, lastVectorUpdate = 0,
                   vectorUpdates = [], highlights = []\<rparr>"

abbreviation edgeBall :: ball where
  "edgeBall \<equiv> \<lparr>position = vec (599 / 100) (1 / 4) (1 / 4), velocity = vec 5 0 0,
                contactRef = vec (1 / 4) 0 (1 / 4), incomingRef = vec 5 0 0,
                normalRef = vec 0 1 0, projectionRef = vec 0 0 0, reflectionRef = vec 5 0 0,
                impactState = None, currentFaceId = None, lastVectorUpdate = 0,
                vectorUpdates = [], highlights = []\<rparr>"

abbreviation slowBall :: ball where
  "slowBall \<equiv> \<lparr>position = vec (1 / 4) (1 / 5) (1 / 4), velocity = vec 0 (1 / 10) 0,
                contactRef = vec 0 0 0, incomingRef = vec 0 0 0,
                normalRef = vec 0 1 0, projectionRef = vec 0 0 0, reflectionRef = vec 0 0 0,
                impactState = None, currentFaceId = None, lastVectorUpdate = 0,
                vectorUpdates = [], highlights = []\<rparr>"

abbreviation fastBall :: ball where
  "fastBall \<equiv> \<lparr>position = vec (1 / 4) (1 / 5) (1 / 4), velocity = vec 0 (- 1) 0,
                contactRef = vec 0 0 0, incomingRef = vec 0 0 0,
                normalRef = vec 0 1 0, projectionRef = vec 0 0 0, reflectionRef = vec 0 0 0,
                impactState = None, currentFaceId = None, lastVectorUpdate = 0,
                vectorUpdates = [], highlights = []\<rparr>"

section \<open>Evaluation on the example inputs\<close>

lemmas vec_defs = vec_def sub_def add_def multiplyScalar_def addScaledVector_def dot_def
  cross_def lengthSq_def vlength_def distanceToSquared_def

lemma supports_upFace: "supports (1 / 4) (1 / 4) upFace"
  by (simp add: supports_def planeHeight_def pointInTriangle_def vec_defs Let_def)

lemma supports_downFace: "supports (1 / 4) (1 / 4) downFace"
  by (simp add: supports_def planeHeight_def pointInTriangle_def vec_defs Let_def)

lemma supports_highFace: "supports (1 / 4) (1 / 4) highFace"
  by (simp add: supports_def planeHeight_def pointInTriangle_def vec_defs Let_def)

lemma planeHeight_faces: "planeHeight (1 / 4) (1 / 4) upFace = 0" "planeHeight (1 / 4) (1 / 4) highFace = 1"
  by (simp_all add: planeHeight_def vec_defs)

lemma ground_upFace: "getGroundInfo (1 / 4) (1 / 4) [upFace] =
     Some \<lparr>ground_y = 0, ground_normal = vec 0 1 0, ground_id = 0\<rparr>"
  by (simp add: getGroundInfo_def planeHeight_def pointInTriangle_def vec_defs Let_def)

lemma ground_rolling:
  "getGroundInfo (14 / 15) (1 / 50) [upFace] =
     Some \<lparr>ground_y = 0, ground_normal = vec 0 1 0, ground_id = 0\<rparr>"
  by (simp add: getGroundInfo_def planeHeight_def pointInTriangle_def vec_defs Let_def)

lemma ground_off: "getGroundInfo (61 / 60) (1 / 50) [upFace] = None"
  by (simp add: getGroundInfo_def planeHeight_def pointInTriangle_def vec_defs Let_def)

lemma inputVector_d: "applyInput dKey v = v\<lparr>vx := 5, vz := 0\<rparr>"
  by (simp add: applyInput_def inputVector_def vnormalize_def vec_defs Let_def)

lemma integrate_resting:
  "integrate noKeys (min (1 / 60) (1 / 60)) restingBall =
     restingBall\<lparr>velocity := vec 0 (- 327 / 2000) 0,
                  position := vec (1 / 4) (1 / 4 - 109 / 40000) (1 / 4)\<rparr>"
  by (simp add: integrate_def applyGravity_def applyInput_def inputVector_def vec_defs Let_def)

lemma integrate_rolling:
  "integrate dKey (min (1 / 60) (1 / 60)) rollingBall =
     rollingBall\<lparr>velocity := vec 5 (- 327 / 2000) 0,
                  position := vec (14 / 15) (1 / 4 - 109 / 40000) (1 / 50)\<rparr>"
  by (simp add: integrate_def applyGravity_def inputVector_d)
     (simp add: vec_defs)

lemma integrate_edge:
  "integrate dKey (min (1 / 60) (1 / 60)) edgeBall =
     edgeBall\<lparr>velocity := vec 5 (- 327 / 2000) 0,
               position := vec (911 / 150) (1 / 4 - 109 / 40000) (1 / 4)\<rparr>"
  by (simp add: integrate_def applyGravity_def inputVector_d)
     (simp add: vec_defs)

lemma integrate_falling:
  "integrate noKeys (1 / 60) fallingBall =
     fallingBall\<lparr>velocity := vec 0 (- 327 / 2000) 0,
                  position := vec (1 / 4) (2 - 109 / 40000) (1 / 4)\<rparr>"
  by (simp add: integrate_def applyGravity_def applyInput_def inputVector_def vec_defs Let_def)

lemma legacy_slow:
  "legacyIntegrate (min (1 / 60) (1 / 60)) slowBall =
     slowBall\<lparr>velocity := vec 0 (- 19 / 300) 0,
               position := vec (1 / 4) (1 / 5 - 19 / 18000) (1 / 4)\<rparr>"
  by (simp add: legacyIntegrate_def vec_defs Let_def)

lemma legacy_fast:
  "legacyIntegrate (min (1 / 60) (1 / 60)) fastBall =
     fastBall\<lparr>velocity := vec 0 (- 349 / 300) 0,
               position := vec (1 / 4) (1 / 5 - 349 / 18000) (1 / 4)\<rparr>"
  by (simp add: legacyIntegrate_def vec_defs Let_def)

section \<open>The ground query\<close>

text \<open>One round of the loop, in terms of the derived notions.\<close>

lemma loop_step:
  "getGroundInfo_loop x z best (f # fs) =
     getGroundInfo_loop x z
       (if supports x z f \<and> (case best of None \<Rightarrow> True | Some b \<Rightarrow> planeHeight x z f > ground_y b)
        then Some (groundOf x z f) else best) fs"
  by (cases best) (simp_all add: supports_def planeHeight_def groundOf_def Let_def not_less)

lemma loop_None:
  "getGroundInfo_loop x z best fs = None \<longleftrightarrow> best = None \<and> (\<forall>f\<in>set fs. \<not> supports x z f)"
proof (induction fs arbitrary: best)
  case Nil
  show ?case by simp
next
  case (Cons f fs)
  show ?case unfolding loop_step Cons.IH by (auto split: option.splits)
qed

lemma loop_Some:
  "getGroundInfo_loop x z best fs = Some g \<Longrightarrow>
     (best = Some g \<and> (\<forall>f\<in>set fs. supports x z f \<longrightarrow> planeHeight x z f \<le> ground_y g))
   \<or> (\<exists>pre f post. fs = pre @ f # post \<and> supports x z f \<and> g = groundOf x z f
        \<and> (\<forall>b. best = Some b \<longrightarrow> ground_y b < ground_y g)
        \<and> (\<forall>f'\<in>set pre. supports x z f' \<longrightarrow> planeHeight x z f' < ground_y g)
        \<and> (\<forall>f'\<in>set post. supports x z f' \<longrightarrow> planeHeight x z f' \<le> ground_y g))"
proof (induction fs arbitrary: best)
  case Nil
  then show ?case by simp
next
  case (Cons f fs)
  define take where "take \<longleftrightarrow> supports x z f \<and> (case best of None \<Rightarrow> True | Some b \<Rightarrow> planeHeight x z f > ground_y b)"
  define best' where "best' = (if take then Some (groundOf x z f) else best)"
  from Cons.prems have run: "getGroundInfo_loop x z best' fs = Some g"
    by (simp only: loop_step best'_def take_def)
  from Cons.IH [OF run] show ?case
  proof (elim disjE exE conjE)
    assume b: "best' = Some g"
      and rest: "\<forall>f\<in>set fs. supports x z f \<longrightarrow> planeHeight x z f \<le> ground_y g"
    show ?thesis
    proof (cases take)
      case True
      with b have g: "g = groundOf x z f" by (simp add: best'_def)
      have s: "supports x z f" using True by (simp add: take_def)
      have bb: "\<forall>b. best = Some b \<longrightarrow> ground_y b < ground_y g"
        using True g by (auto simp: groundOf_def take_def)
      have "f # fs = [] @ f # fs \<and> supports x z f \<and> g = groundOf x z f
        \<and> (\<forall>b. best = Some b \<longrightarrow> ground_y b < ground_y g)
        \<and> (\<forall>f'\<in>set []. supports x z f' \<longrightarrow> planeHeight x z f' < ground_y g)
        \<and> (\<forall>f'\<in>set fs. supports x z f' \<longrightarrow> planeHeight x z f' \<le> ground_y g)"
        using s g bb rest by simp
      then show ?thesis by (intro disjI2 exI)
    next
      case False
      with b have bg: "best = Some g" by (simp add: best'_def)
      with False have "supports x z f \<longrightarrow> planeHeight x z f \<le> ground_y g"
        by (auto simp: take_def)
      with bg rest show ?thesis by simp
    qed
  next
    fix pre f0 post
    assume fs: "fs = pre @ f0 # post" and s: "supports x z f0" and g: "g = groundOf x z f0"
      and bb: "\<forall>b. best' = Some b \<longrightarrow> ground_y b < ground_y g"
      and p1: "\<forall>f'\<in>set pre. supports x z f' \<longrightarrow> planeHeight x z f' < ground_y g"
      and p2: "\<forall>f'\<in>set post. supports x z f' \<longrightarrow> planeHeight x z f' \<le> ground_y g"
    have b: "\<forall>b. best = Some b \<longrightarrow> ground_y b < ground_y g"
    proof (cases take)
      case True
      then show ?thesis using bb by (auto simp: best'_def take_def groundOf_def)
    next
      case False
      then show ?thesis using bb by (simp add: best'_def)
    qed
    have c: "supports x z f \<longrightarrow> planeHeight x z f < ground_y g"
    proof (cases take)
      case True
      then show ?thesis using bb by (simp add: best'_def groundOf_def)
    next
      case False
      then show ?thesis using b by (cases best) (auto simp: take_def)
    qed
    have "f # fs = (f # pre) @ f0 # post \<and> supports x z f0 \<and> g = groundOf x z f0
        \<and> (\<forall>b. best = Some b \<longrightarrow> ground_y b < ground_y g)
        \<and> (\<forall>f'\<in>set (f # pre). supports x z f' \<longrightarrow> planeHeight x z f' < ground_y g)
        \<and> (\<forall>f'\<in>set post. supports x z f' \<longrightarrow> planeHeight x z f' \<le> ground_y g)"
      using fs s g b c p1 p2 by simp
    then show ?thesis by (intro disjI2 exI)
  qed
qed

text \<open>
  C1, as amended. For every list of faces and every horizontal position \<open>(x, z)\<close>, the
  ground query considers exactly the faces whose normal's vertical component has an
  absolute value of at least \<open>1e-4\<close> (the normal may point up or down) and whose
  triangle contains, by the barycentric test, the point at which the vertical line
  through \<open>(x, z)\<close> meets the plane of the face. It returns none exactly when no face
  qualifies. Otherwise it returns the height, the normal and the id of a qualifying face
  of maximum height, and among several of them the first one in the order of the list:
  every qualifying face before it is strictly lower, every one after it is not higher.
\<close>

theorem ground_query_topmost:
  "(getGroundInfo x z fs = None \<longleftrightarrow> (\<forall>f\<in>set fs. \<not> supports x z f))
 \<and> (\<forall>g. getGroundInfo x z fs = Some g \<longrightarrow>
       (\<exists>pre f post. fs = pre @ f # post \<and> supports x z f
          \<and> g = \<lparr>ground_y = planeHeight x z f, ground_normal = face_normal f,
                  ground_id = face_id f\<rparr>
          \<and> (\<forall>f'\<in>set pre. supports x z f' \<longrightarrow> planeHeight x z f' < planeHeight x z f)
          \<and> (\<forall>f'\<in>set post. supports x z f' \<longrightarrow> planeHeight x z f' \<le> planeHeight x z f)))"
proof (intro conjI allI impI)
  show "getGroundInfo x z fs = None \<longleftrightarrow> (\<forall>f\<in>set fs. \<not> supports x z f)"
    by (simp add: getGroundInfo_def loop_None)
next
  fix g
  assume "getGroundInfo x z fs = Some g"
  then have "getGroundInfo_loop x z None fs = Some g" by (simp add: getGroundInfo_def)
  from loop_Some [OF this]
  obtain pre f post where "fs = pre @ f # post" "supports x z f" "g = groundOf x z f"
    "\<forall>f'\<in>set pre. supports x z f' \<longrightarrow> planeHeight x z f' < ground_y g"
    "\<forall>f'\<in>set post. supports x z f' \<longrightarrow> planeHeight x z f' \<le> ground_y g"
    by auto
  then have "fs = pre @ f # post \<and> supports x z f
          \<and> g = \<lparr>ground_y = planeHeight x z f, ground_normal = face_normal f,
                  ground_id = face_id f\<rparr>
          \<and> (\<forall>f'\<in>set pre. supports x z f' \<longrightarrow> planeHeight x z f' < planeHeight x z f)
          \<and> (\<forall>f'\<in>set post. supports x z f' \<longrightarrow> planeHeight x z f' \<le> planeHeight x z f)"
    by (simp add: groundOf_def)
  then show "\<exists>pre f post. fs = pre @ f # post \<and> supports x z f
          \<and> g = \<lparr>ground_y = planeHeight x z f, ground_normal = face_normal f,
                  ground_id = face_id f\<rparr>
          \<and> (\<forall>f'\<in>set pre. supports x z f' \<longrightarrow> planeHeight x z f' < planeHeight x z f)
          \<and> (\<forall>f'\<in>set post. supports x z f' \<longrightarrow> planeHeight x z f' \<le> planeHeight x z f)"
    by (intro exI)
qed

text \<open>
  The amended statement at the list of the face at height 0 followed by the face at
  height 1, and at the empty list.
\<close>

theorem ground_query_topmost_witness:
  "supports (1 / 4) (1 / 4) upFace \<and> supports (1 / 4) (1 / 4) highFace
   \<and> getGroundInfo (1 / 4) (1 / 4) [upFace, highFace] =
       Some \<lparr>ground_y = 1, ground_normal = vec 0 1 0, ground_id = 1\<rparr>
   \<and> getGroundInfo (1 / 4) (1 / 4) [] = None"
proof -
  have e: "getGroundInfo (1 / 4) (1 / 4) [] = None"
    using ground_query_topmost [of "1 / 4" "1 / 4" "[]"] by simp
  have "getGroundInfo (1 / 4) (1 / 4) [upFace, highFace] \<noteq> None"
    using ground_query_topmost [of "1 / 4" "1 / 4" "[upFace, highFace]"] supports_upFace
    by simp
  then obtain g where g: "getGroundInfo (1 / 4) (1 / 4) [upFace, highFace] = Some g"
    by auto
  with ground_query_topmost [of "1 / 4" "1 / 4" "[upFace, highFace]"]
  obtain pre f post where f: "[upFace, highFace] = pre @ f # post"
    and gf: "g = \<lparr>ground_y = planeHeight (1 / 4) (1 / 4) f, ground_normal = face_normal f,
                  ground_id = face_id f\<rparr>"
    and post: "\<forall>f'\<in>set post. supports (1 / 4) (1 / 4) f' \<longrightarrow>
                 planeHeight (1 / 4) (1 / 4) f' \<le> planeHeight (1 / 4) (1 / 4) f"
    by blast
  have "f = highFace"
  proof (rule ccontr)
    assume n: "f \<noteq> highFace"
    from f have "pre = [] \<and> f = upFace \<and> post = [highFace]"
      using n by (cases pre) (auto simp: Cons_eq_append_conv)
    with post supports_highFace planeHeight_faces show False by simp
  qed
  with gf g planeHeight_faces have "getGroundInfo (1 / 4) (1 / 4) [upFace, highFace] =
       Some \<lparr>ground_y = 1, ground_normal = vec 0 1 0, ground_id = 1\<rparr>"
    by simp
  with e supports_upFace supports_highFace show ?thesis by simp
qed

text \<open>
  C1 as stated fails on a face whose normal points straight down: the vertical component
  of its normal does not exceed the epsilon, so no face qualifies in the stated sense,
  and yet the query returns this face.
\<close>

theorem ground_query_upward_counterexample:
  "\<not> supports_upward (1 / 4) (1 / 4) downFace \<and>
   getGroundInfo (1 / 4) (1 / 4) [downFace] =
     Some \<lparr>ground_y = 0, ground_normal = vec 0 (- 1) 0, ground_id = 0\<rparr>"
  by (simp add: supports_upward_def getGroundInfo_def planeHeight_def pointInTriangle_def vec_defs Let_def)

section \<open>The keyboard mode\<close>

text \<open>The three ways a frame of the keyboard mode ends, after the integration.\<close>

lemma useFrame_contact:
  assumes "keyboardControl P" and "s1 = integrate K (min dt (1 / 60)) s"
    and "\<not> outOfBounds (position s1)"
    and "getGroundInfo (vx (position s1)) (vz (position s1)) (faces P) = Some g"
    and "vy (position s1) \<le> ground_y g + radius P"
  shows "useFrame P K now dt s = resolveContact P now g s1"
  using assms by (simp add: useFrame_def keyboardStep_def Let_def)

lemma useFrame_clear:
  assumes "keyboardControl P" and "s1 = integrate K (min dt (1 / 60)) s"
    and "\<not> outOfBounds (position s1)"
    and "case getGroundInfo (vx (position s1)) (vz (position s1)) (faces P) of
           None \<Rightarrow> True | Some g \<Rightarrow> vy (position s1) > ground_y g + radius P"
  shows "useFrame P K now dt s = clearContact now s1"
  using assms by (auto simp add: useFrame_def keyboardStep_def Let_def split: option.splits)

lemma useFrame_reset:
  assumes "keyboardControl P" and "s1 = integrate K (min dt (1 / 60)) s"
    and "outOfBounds (position s1)"
  shows "useFrame P K now dt s = autoReset P s1"
  using assms by (simp add: useFrame_def keyboardStep_def Let_def)

lemma resolveContact_position:
  "position (resolveContact P now g s) = (position s)\<lparr>vy := ground_y g + radius P\<rparr>"
  by (simp add: resolveContact_def Let_def)

lemma resolveContact_velocity:
  "velocity (resolveContact P now g s) = (velocity s)\<lparr>vy := max 0 (vy (velocity s))\<rparr>"
  by (simp add: resolveContact_def Let_def)

lemma resolveContact_horizontal:
  "vx (position (resolveContact P now g s)) = vx (position s)"
  "vz (position (resolveContact P now g s)) = vz (position s)"
  "vx (velocity (resolveContact P now g s)) = vx (velocity s)"
  "vz (velocity (resolveContact P now g s)) = vz (velocity s)"
  by (simp_all add: resolveContact_def Let_def)

text \<open>
  The throttle timestamp \<open>lastVectorUpdate\<close> is written by the throttled notifications
  of the contact branch and of the no-contact branch. The notification of the reset for
  leaving the bounds is not throttled and does not write it, so the timestamp need not
  be the time of the last notification of vectors.
\<close>

lemma lastVectorUpdate_branches:
  "lastVectorUpdate (autoReset P s) = lastVectorUpdate s"
  "lastVectorUpdate (resolveContact P now g s) =
     (if now - lastVectorUpdate s > 50 then now else lastVectorUpdate s)"
  "lastVectorUpdate (clearContact now s) =
     (if now - lastVectorUpdate s > 100 then now else lastVectorUpdate s)"
  by (simp_all add: autoReset_def resolveContact_def clearContact_def Let_def)

lemma useFrame_falling:
  "velocity (useFrame keyboardProps noKeys 0 dt' fallingBall) = vec 0 (- 327 / 2000) 0"
  if "min dt' (1 / 60) = 1 / 60"
proof -
  have o: "\<not> outOfBounds (position (integrate noKeys (min dt' (1 / 60)) fallingBall))"
    unfolding that integrate_falling by (simp add: outOfBounds_def vec_def)
  have c: "case getGroundInfo (vx (position (integrate noKeys (min dt' (1 / 60)) fallingBall)))
                  (vz (position (integrate noKeys (min dt' (1 / 60)) fallingBall)))
                  (faces keyboardProps) of
           None \<Rightarrow> True
         | Some g \<Rightarrow> vy (position (integrate noKeys (min dt' (1 / 60)) fallingBall))
                       > ground_y g + radius keyboardProps"
    unfolding that integrate_falling using ground_upFace by (simp add: vec_def)
  have "useFrame keyboardProps noKeys 0 dt' fallingBall =
          clearContact 0 (integrate noKeys (min dt' (1 / 60)) fallingBall)"
    by (rule useFrame_clear [OF _ refl o c]) simp
  then show ?thesis
    unfolding that integrate_falling by (simp add: clearContact_def Let_def)
qed

lemma rolling_first:
  "useFrame keyboardProps dKey 100 (1 / 60) rollingBall =
     rollingBall\<lparr>position := vec (14 / 15) (1 / 4) (1 / 50),
                  contactRef := vec (14 / 15) 0 (1 / 50),
                  vectorUpdates := [contactVectors], lastVectorUpdate := 100\<rparr>"
proof -
  let ?s1 = "integrate dKey (min (1 / 60) (1 / 60)) rollingBall"
  let ?g = "\<lparr>ground_y = 0, ground_normal = vec 0 1 0, ground_id = 0\<rparr>"
  have k: "keyboardControl keyboardProps" by simp
  have o: "\<not> outOfBounds (position ?s1)"
    unfolding integrate_rolling by (simp add: outOfBounds_def vec_def)
  have g: "getGroundInfo (vx (position ?s1)) (vz (position ?s1)) (faces keyboardProps) = Some ?g"
    unfolding integrate_rolling using ground_rolling by (simp add: vec_def)
  have y: "vy (position ?s1) \<le> ground_y ?g + radius keyboardProps"
    unfolding integrate_rolling by (simp add: vec_def)
  show ?thesis
    unfolding useFrame_contact [OF k refl o g y] integrate_rolling
    by (simp add: resolveContact_def Let_def projectOnto_def reflect_def normalize_def
        vnormalize_def vec_defs)
qed

lemma rolling_second:
  "useFrame keyboardProps dKey 116 (1 / 60)
     (rollingBall\<lparr>position := vec (14 / 15) (1 / 4) (1 / 50),
                  contactRef := vec (14 / 15) 0 (1 / 50),
                  vectorUpdates := [contactVectors], lastVectorUpdate := 100\<rparr>) =
     rollingBall\<lparr>position := vec (61 / 60) (1 / 4 - 109 / 40000) (1 / 50),
                  velocity := vec 5 (- 327 / 2000) 0,
                  contactRef := vec (14 / 15) 0 (1 / 50),
                  vectorUpdates := [contactVectors], lastVectorUpdate := 100,
                  currentFaceId := None, highlights := [Some 0, None]\<rparr>"
  (is "useFrame _ _ _ _ ?s = _")
proof -
  let ?s1 = "integrate dKey (min (1 / 60) (1 / 60)) ?s"
  have s1: "?s1 = ?s\<lparr>velocity := vec 5 (- 327 / 2000) 0,
                  position := vec (61 / 60) (1 / 4 - 109 / 40000) (1 / 50)\<rparr>"
    by (simp add: integrate_def applyGravity_def inputVector_d) (simp add: vec_defs)
  have k: "keyboardControl keyboardProps" by simp
  have o: "\<not> outOfBounds (position ?s1)"
    unfolding s1 by (simp add: outOfBounds_def vec_def)
  have c: "case getGroundInfo (vx (position ?s1)) (vz (position ?s1)) (faces keyboardProps) of
           None \<Rightarrow> True | Some g \<Rightarrow> vy (position ?s1) > ground_y g + radius keyboardProps"
    unfolding s1 using ground_off by (simp add: vec_def)
  show ?thesis
    unfolding useFrame_clear [OF k refl o c] s1
    by (simp add: clearContact_def Let_def)
qed

text \<open>
  C2. In the keyboard mode, in a frame that reaches the ground query (the position after
  the integration is not out of bounds), whenever the query at the new horizontal
  position finds a face and the vertical position is at or below the ground height plus
  the radius, the frame sets \<open>position.y\<close> to exactly the ground height plus the radius
  and the vertical velocity to the maximum of 0 and its value: it is never negative
  afterwards, a downward velocity becomes 0 and an upward velocity is kept as it is.
  \<open>s1\<close> is the state after the integration.
\<close>

theorem contact_snap:
  assumes "keyboardControl P" and "s1 = integrate K (min dt (1 / 60)) s"
    and "\<not> outOfBounds (position s1)"
    and "getGroundInfo (vx (position s1)) (vz (position s1)) (faces P) = Some g"
    and "vy (position s1) \<le> ground_y g + radius P"
  shows "vy (position (useFrame P K now dt s)) = ground_y g + radius P
       \<and> vy (velocity (useFrame P K now dt s)) = max 0 (vy (velocity s1))
       \<and> 0 \<le> vy (velocity (useFrame P K now dt s))
       \<and> (if 0 \<le> vy (velocity s1) then vy (velocity (useFrame P K now dt s)) = vy (velocity s1)
          else vy (velocity (useFrame P K now dt s)) = 0)"
  unfolding useFrame_contact [OF assms] resolveContact_position resolveContact_velocity
  by simp

text \<open>The statement for the ball at rest on the face, with no key pressed.\<close>

theorem contact_snap_witness:
  "keyboardControl keyboardProps
   \<and> \<not> outOfBounds (position (integrate noKeys (min (1 / 60) (1 / 60)) restingBall))
   \<and> getGroundInfo (1 / 4) (1 / 4) (faces keyboardProps) =
        Some \<lparr>ground_y = 0, ground_normal = vec 0 1 0, ground_id = 0\<rparr>
   \<and> vy (position (integrate noKeys (min (1 / 60) (1 / 60)) restingBall)) \<le> 0 + 1 / 4
   \<and> vy (position (useFrame keyboardProps noKeys 16 (1 / 60) restingBall)) = 1 / 4
   \<and> vy (velocity (useFrame keyboardProps noKeys 16 (1 / 60) restingBall)) = 0"
proof -
  let ?s1 = "integrate noKeys (min (1 / 60) (1 / 60)) restingBall"
  let ?g = "\<lparr>ground_y = 0, ground_normal = vec 0 1 0, ground_id = 0\<rparr>"
  have k: "keyboardControl keyboardProps" by simp
  have o: "\<not> outOfBounds (position ?s1)"
    unfolding integrate_resting by (simp add: outOfBounds_def vec_def)
  have g: "getGroundInfo (vx (position ?s1)) (vz (position ?s1)) (faces keyboardProps) = Some ?g"
    unfolding integrate_resting using ground_upFace by (simp add: vec_def)
  have y: "vy (position ?s1) \<le> ground_y ?g + radius keyboardProps"
    unfolding integrate_resting by (simp add: vec_def)
  have v: "vy (velocity ?s1) = - 327 / 2000"
    unfolding integrate_resting by (simp add: vec_def)
  from contact_snap [OF k refl o g y, of 16] v ground_upFace k o y show ?thesis by simp
qed

text \<open>
  C3, as amended. The frame integrates with \<open>delta = min(dt, 1/60)\<close>. For every
  \<open>dt > 0\<close>, starting from a vertical velocity of zero, after a frame of the keyboard
  mode that ends neither in the reset for leaving the bounds nor in a ground contact, the
  vertical velocity is \<open>gravity * delta\<close> with \<open>gravity = -9.81\<close>, which is
  \<open>gravity * dt\<close> when \<open>dt \<le> 1/60\<close>. The horizontal velocity of the frame is the
  one set from the keys (or the damped one), and adding the gravity leaves the horizontal
  components of any velocity as they are.
\<close>

theorem gravity_step:
  assumes "keyboardControl P" and "0 < dt" and "vy (velocity s) = 0"
    and "s1 = integrate K (min dt (1 / 60)) s"
    and "\<not> outOfBounds (position s1)"
    and "case getGroundInfo (vx (position s1)) (vz (position s1)) (faces P) of
           None \<Rightarrow> True | Some g \<Rightarrow> vy (position s1) > ground_y g + radius P"
  shows "vy (velocity (useFrame P K now dt s)) = - 9.81 * min dt (1 / 60)
       \<and> vx (velocity (useFrame P K now dt s)) = vx (applyInput K (velocity s))
       \<and> vz (velocity (useFrame P K now dt s)) = vz (applyInput K (velocity s))
       \<and> vx (applyGravity (min dt (1 / 60)) v) = vx v
       \<and> vz (applyGravity (min dt (1 / 60)) v) = vz v"
proof -
  have "useFrame P K now dt s = clearContact now s1"
    by (rule useFrame_clear [OF assms(1,4,5,6)])
  moreover have "velocity (clearContact now s1) = velocity s1"
    by (simp add: clearContact_def Let_def)
  moreover have "vy (applyInput K (velocity s)) = 0"
    using assms(3) by (simp add: applyInput_def Let_def)
  ultimately show ?thesis
    by (simp add: assms(4) integrate_def applyGravity_def Let_def)
qed

text \<open>The amended statement for the ball falling from height 2 with \<open>dt = 1/120\<close>.\<close>

theorem gravity_step_witness:
  "keyboardControl keyboardProps \<and> (0::real) < 1 / 120 \<and> vy (velocity fallingBall) = 0
   \<and> \<not> outOfBounds (position (integrate noKeys (min (1 / 120) (1 / 60)) fallingBall))
   \<and> vy (velocity (useFrame keyboardProps noKeys 0 (1 / 120) fallingBall)) = - 9.81 * (1 / 120)"
proof -
  let ?s1 = "integrate noKeys (min (1 / 120) (1 / 60)) fallingBall"
  have s1: "?s1 = fallingBall\<lparr>velocity := vec 0 (- 327 / 4000) 0,
                  position := vec (1 / 4) (2 - 109 / 160000) (1 / 4)\<rparr>"
    by (simp add: integrate_def applyGravity_def applyInput_def inputVector_def vec_defs Let_def)
  have k: "keyboardControl keyboardProps" by simp
  have v: "vy (velocity fallingBall) = 0" by (simp add: vec_def)
  have o: "\<not> outOfBounds (position ?s1)"
    unfolding s1 by (simp add: outOfBounds_def vec_def)
  have c: "case getGroundInfo (vx (position ?s1)) (vz (position ?s1)) (faces keyboardProps) of
           None \<Rightarrow> True | Some g \<Rightarrow> vy (position ?s1) > ground_y g + radius keyboardProps"
    unfolding s1 using ground_upFace by (simp add: vec_def)
  have d: "(0::real) < 1 / 120" by simp
  from gravity_step [OF k d v refl o c, of 0] k v o show ?thesis by simp
qed

text \<open>
  C3 as stated fails for \<open>dt = 1\<close>: the ball falls from height 2, far above the face,
  with zero velocity, and after the frame its vertical velocity is \<open>-9.81 / 60\<close>, not
  \<open>-9.81 * 1\<close>.
\<close>

theorem gravity_step_counterexample:
  "vy (velocity (useFrame keyboardProps noKeys 0 1 fallingBall)) = - 327 / 2000
   \<and> vy (velocity (useFrame keyboardProps noKeys 0 1 fallingBall)) \<noteq> - 9.81 * 1"
  using useFrame_falling [of 1] by (simp add: vec_def)

text \<open>
  C7. In the keyboard mode, in a frame where after the integration the vertical position
  is below \<open>-5\<close> or the absolute value of a horizontal coordinate exceeds 0.6 times the
  terrain size of 10, the ball is put at its start horizontal coordinates, resting on the
  ground there (its height is the ground height there plus the radius) or at its start
  height when the query finds no face there; its velocity becomes zero, a notification
  with four zero vectors is sent, the tracked face id is cleared and the highlight is
  cleared. Nothing else of the state changes: the frame ends without the ground query at
  the new position and without the contact branch, which would write the contact refs.
\<close>

theorem out_of_bounds_reset:
  assumes "keyboardControl P" and "s1 = integrate K (min dt (1 / 60)) s"
    and "vy (position s1) < - 5 \<or> \<bar>vx (position s1)\<bar> > 0.6 * 10 \<or> \<bar>vz (position s1)\<bar> > 0.6 * 10"
  shows "useFrame P K now dt s =
           s1\<lparr>position := vec (vx (startPos P))
                               (case getGroundInfo (vx (startPos P)) (vz (startPos P)) (faces P) of
                                  Some g \<Rightarrow> ground_y g + radius P
                                | None \<Rightarrow> vy (startPos P))
                               (vz (startPos P)),
                velocity := vec 0 0 0,
                vectorUpdates := vectorUpdates s @ [zeroVectors],
                currentFaceId := None,
                highlights := highlights s @ [None]\<rparr>"
proof -
  have "outOfBounds (position s1)" using assms(3) by (simp add: outOfBounds_def)
  from useFrame_reset [OF assms(1,2) this]
  show ?thesis by (simp add: autoReset_def Let_def assms(2) integrate_def)
qed

text \<open>The statement for a ball that crosses \<open>x = 6\<close> with the key \<open>d\<close> pressed.\<close>

theorem out_of_bounds_reset_witness:
  "keyboardControl keyboardProps
   \<and> \<bar>vx (position (integrate dKey (min (1 / 60) (1 / 60)) edgeBall))\<bar> > 0.6 * 10
   \<and> position (useFrame keyboardProps dKey 100 (1 / 60) edgeBall) = vec (1 / 4) (1 / 4) (1 / 4)
   \<and> velocity (useFrame keyboardProps dKey 100 (1 / 60) edgeBall) = vec 0 0 0
   \<and> vectorUpdates (useFrame keyboardProps dKey 100 (1 / 60) edgeBall) = [zeroVectors]
   \<and> currentFaceId (useFrame keyboardProps dKey 100 (1 / 60) edgeBall) = None
   \<and> highlights (useFrame keyboardProps dKey 100 (1 / 60) edgeBall) = [None]"
proof -
  let ?s1 = "integrate dKey (min (1 / 60) (1 / 60)) edgeBall"
  have k: "keyboardControl keyboardProps" by simp
  have x: "\<bar>vx (position ?s1)\<bar> > 0.6 * 10"
    unfolding integrate_edge by (simp add: vec_def)
  then have o: "vy (position ?s1) < - 5 \<or> \<bar>vx (position ?s1)\<bar> > 0.6 * 10
      \<or> \<bar>vz (position ?s1)\<bar> > 0.6 * 10" by simp
  have g: "getGroundInfo (vx (startPos keyboardProps)) (vz (startPos keyboardProps))
             (faces keyboardProps) = Some \<lparr>ground_y = 0, ground_normal = vec 0 1 0, ground_id = 0\<rparr>"
    using ground_upFace by (simp add: vec_def)
  show ?thesis
    unfolding out_of_bounds_reset [OF k refl o, of 100] g
    using x by (simp add: vec_def)
qed

text \<open>
  C8, as amended. In every frame of the keyboard mode that reaches the ground query and
  finds no supporting face, or finds the ball above the ground height plus the radius,
  the tracked face id is cleared (with a highlight of null if it was set). A notification
  with four zero vectors is sent exactly when the current time exceeds by more than
  100 ms the throttle timestamp, which is the value of the ref \<open>lastVectorUpdate\<close>
  when the frame begins, and the timestamp then becomes the current time; otherwise the
  frame sends no notification of vectors and leaves the timestamp, so that a consumer
  keeps the vectors it received last. The throttle has no influence on the position and
  the velocity, which are the ones after the integration.
\<close>

theorem clear_throttled:
  assumes "keyboardControl P" and "s1 = integrate K (min dt (1 / 60)) s"
    and "\<not> outOfBounds (position s1)"
    and "case getGroundInfo (vx (position s1)) (vz (position s1)) (faces P) of
           None \<Rightarrow> True | Some g \<Rightarrow> vy (position s1) > ground_y g + radius P"
  shows "currentFaceId (useFrame P K now dt s) = None
       \<and> highlights (useFrame P K now dt s) =
           highlights s @ (if currentFaceId s = None then [] else [None])
       \<and> vectorUpdates (useFrame P K now dt s) =
           vectorUpdates s @ (if now - lastVectorUpdate s > 100 then [zeroVectors] else [])
       \<and> lastVectorUpdate (useFrame P K now dt s) =
           (if now - lastVectorUpdate s > 100 then now else lastVectorUpdate s)
       \<and> position (useFrame P K now dt s) = position s1
       \<and> velocity (useFrame P K now dt s) = velocity s1"
proof -
  have "useFrame P K now dt s = clearContact now s1"
    by (rule useFrame_clear [OF assms])
  then show ?thesis
    by (simp add: clearContact_def Let_def assms(2) integrate_def)
qed

text \<open>
  The amended statement for the falling ball, 101 ms and 100 ms after the last
  notification.
\<close>

theorem clear_throttled_witness:
  "keyboardControl keyboardProps
   \<and> \<not> outOfBounds (position (integrate noKeys (min (1 / 60) (1 / 60)) fallingBall))
   \<and> currentFaceId (useFrame keyboardProps noKeys 101 (1 / 60) fallingBall) = None
   \<and> vectorUpdates (useFrame keyboardProps noKeys 101 (1 / 60) fallingBall) = [zeroVectors]
   \<and> lastVectorUpdate (useFrame keyboardProps noKeys 101 (1 / 60) fallingBall) = 101
   \<and> vectorUpdates (useFrame keyboardProps noKeys 100 (1 / 60) fallingBall) = []
   \<and> lastVectorUpdate (useFrame keyboardProps noKeys 100 (1 / 60) fallingBall) = 0"
proof -
  let ?s1 = "integrate noKeys (min (1 / 60) (1 / 60)) fallingBall"
  have s1: "?s1 = fallingBall\<lparr>velocity := vec 0 (- 327 / 2000) 0,
                  position := vec (1 / 4) (2 - 109 / 40000) (1 / 4)\<rparr>"
    using integrate_falling by simp
  have k: "keyboardControl keyboardProps" by simp
  have o: "\<not> outOfBounds (position ?s1)"
    unfolding s1 by (simp add: outOfBounds_def vec_def)
  have c: "case getGroundInfo (vx (position ?s1)) (vz (position ?s1)) (faces keyboardProps) of
           None \<Rightarrow> True | Some g \<Rightarrow> vy (position ?s1) > ground_y g + radius keyboardProps"
    unfolding s1 using ground_upFace by (simp add: vec_def)
  from clear_throttled [OF k refl o c, of 101] clear_throttled [OF k refl o c, of 100] k o
  show ?thesis by simp
qed

text \<open>
  C8 as stated fails. A ball rolls over the edge of the face with the key \<open>d\<close>
  pressed: the frame at 100 ms is a ground contact and notifies the contact vectors, the
  frame at 116 ms finds no face below the ball. After it the last notification a
  consumer has received is still the one with the non-zero contact vectors, and the refs
  of the incoming velocity and of the reflection still hold them.
\<close>

theorem clear_throttled_counterexample:
  "getGroundInfo (61 / 60) (1 / 50) (faces keyboardProps) = None
   \<and> position (useFrame keyboardProps dKey 116 (1 / 60)
        (useFrame keyboardProps dKey 100 (1 / 60) rollingBall))
       = vec (61 / 60) (1 / 4 - 109 / 40000) (1 / 50)
   \<and> vectorUpdates (useFrame keyboardProps dKey 116 (1 / 60)
        (useFrame keyboardProps dKey 100 (1 / 60) rollingBall)) = [contactVectors]
   \<and> incomingRef (useFrame keyboardProps dKey 116 (1 / 60)
        (useFrame keyboardProps dKey 100 (1 / 60) rollingBall)) = vec 5 0 0
   \<and> reflectionRef (useFrame keyboardProps dKey 116 (1 / 60)
        (useFrame keyboardProps dKey 100 (1 / 60) rollingBall)) = vec 5 0 0
   \<and> contactVectors \<noteq> zeroVectors"
  unfolding rolling_first rolling_second using ground_off
  by (simp add: zeroVectors_def vec_def)

text \<open>
  C10. In the contact branch of the keyboard mode, \<open>position.x\<close>, \<open>position.z\<close>,
  \<open>velocity.x\<close> and \<open>velocity.z\<close> keep the values they have after the integration
  (state \<open>s1\<close>); of the position and the velocity only the \<open>y\<close> components are
  assigned.
\<close>

theorem contact_frame:
  assumes "keyboardControl P" and "s1 = integrate K (min dt (1 / 60)) s"
    and "\<not> outOfBounds (position s1)"
    and "getGroundInfo (vx (position s1)) (vz (position s1)) (faces P) = Some g"
    and "vy (position s1) \<le> ground_y g + radius P"
  shows "vx (position (useFrame P K now dt s)) = vx (position s1)
       \<and> vz (position (useFrame P K now dt s)) = vz (position s1)
       \<and> vx (velocity (useFrame P K now dt s)) = vx (velocity s1)
       \<and> vz (velocity (useFrame P K now dt s)) = vz (velocity s1)
       \<and> position (useFrame P K now dt s) = (position s1)\<lparr>vy := ground_y g + radius P\<rparr>
       \<and> velocity (useFrame P K now dt s) = (velocity s1)\<lparr>vy := max 0 (vy (velocity s1))\<rparr>"
  unfolding useFrame_contact [OF assms]
  by (simp add: resolveContact_horizontal resolveContact_position resolveContact_velocity)

text \<open>The statement for the ball rolling on the face with the key \<open>d\<close> pressed.\<close>

theorem contact_frame_witness:
  "keyboardControl keyboardProps
   \<and> \<not> outOfBounds (position (integrate dKey (min (1 / 60) (1 / 60)) rollingBall))
   \<and> getGroundInfo (14 / 15) (1 / 50) (faces keyboardProps) =
        Some \<lparr>ground_y = 0, ground_normal = vec 0 1 0, ground_id = 0\<rparr>
   \<and> vy (position (integrate dKey (min (1 / 60) (1 / 60)) rollingBall)) \<le> 0 + 1 / 4
   \<and> position (useFrame keyboardProps dKey 100 (1 / 60) rollingBall) = vec (14 / 15) (1 / 4) (1 / 50)
   \<and> velocity (useFrame keyboardProps dKey 100 (1 / 60) rollingBall) = vec 5 0 0"
proof -
  let ?s1 = "integrate dKey (min (1 / 60) (1 / 60)) rollingBall"
  let ?g = "\<lparr>ground_y = 0, ground_normal = vec 0 1 0, ground_id = 0\<rparr>"
  have k: "keyboardControl keyboardProps" by simp
  have o: "\<not> outOfBounds (position ?s1)"
    unfolding integrate_rolling by (simp add: outOfBounds_def vec_def)
  have g: "getGroundInfo (vx (position ?s1)) (vz (position ?s1)) (faces keyboardProps) = Some ?g"
    unfolding integrate_rolling using ground_rolling by (simp add: vec_def)
  have y: "vy (position ?s1) \<le> ground_y ?g + radius keyboardProps"
    unfolding integrate_rolling by (simp add: vec_def)
  have p: "position ?s1 = vec (14 / 15) (1 / 4 - 109 / 40000) (1 / 50)"
    and v: "velocity ?s1 = vec 5 (- 327 / 2000) 0"
    unfolding integrate_rolling by simp_all
  from contact_frame [OF k refl o g y, of 100] show ?thesis
    using k o y ground_rolling unfolding p v by (simp add: vec_def)
qed

section \<open>The legacy mode\<close>

lemma legacyLoop_Cons:
  "legacyLoop r now (f # fs) s =
     (if triggers r (position s) (velocity s) f then bounce r now f s
      else legacyLoop r now fs s)"
  by (simp add: triggers_def bounce_def Let_def not_less)

lemma legacyLoop_first:
  "\<forall>f'\<in>set pre. \<not> triggers r (position s) (velocity s) f' \<Longrightarrow>
   triggers r (position s) (velocity s) f \<Longrightarrow>
   legacyLoop r now (pre @ f # post) s = bounce r now f s"
  by (induction pre) (simp_all add: legacyLoop_Cons del: legacyLoop.simps(2))

lemma legacyLoop_none:
  "\<forall>f\<in>set fs. \<not> triggers r (position s) (velocity s) f \<Longrightarrow> legacyLoop r now fs s = s"
  by (induction fs) (simp_all add: legacyLoop_Cons del: legacyLoop.simps(2))

text \<open>
  C9, as amended. In the legacy mode, once launched, in a frame in which the squared
  speed after the integration is at least 0.01: whenever a face among the faces the loop
  runs over (all faces when there are at most 100, else those whose centroid is closer
  than the radius plus 2 to the ball) passes the three tests (the velocity dotted with
  the normal is negative, the normal dotted with the vector from the vertex \<open>a\<close> to the
  ball is at most the radius, the projection of the ball onto the plane is inside the
  triangle), the frame handles exactly the first such face: it moves the ball along the
  normal by the penetration \<open>radius - dist\<close> plus \<open>1e-3\<close> when the penetration is
  positive (and not at all when it is zero), sets the velocity to the reflection of the
  incoming velocity about the normal of that face, and highlights that face only.
\<close>

theorem legacy_bounce:
  assumes "\<not> keyboardControl P" and "launched P"
    and "s1 = legacyIntegrate (min dt (1 / 60)) s"
    and "lengthSq (velocity s1) \<ge> 0.01"
    and "nearbyFaces P (position s1) = pre @ f # post"
    and "\<forall>f'\<in>set pre. \<not> triggers (radius P) (position s1) (velocity s1) f'"
    and "triggers (radius P) (position s1) (velocity s1) f"
    and "dst = dot (face_normal f) (sub (position s1) (face_a f))"
  shows "position (useFrame P K now dt s) =
           (if radius P - dst > 0
            then add (position s1) (multiplyScalar (face_normal f) (radius P - dst + 0.001))
            else position s1)
       \<and> velocity (useFrame P K now dt s) = reflect (velocity s1) (face_normal f)
       \<and> highlights (useFrame P K now dt s) = highlights s @ [Some (face_id f)]"
proof -
  have loop: "legacyLoop (radius P) now (nearbyFaces P (position s1)) s1 = bounce (radius P) now f s1"
    unfolding assms(5) by (rule legacyLoop_first [OF assms(6,7)])
  have h: "highlights s1 = highlights s"
    by (simp add: assms(3) legacyIntegrate_def Let_def)
  have "useFrame P K now dt s =
          (case impactState s of
             Some im \<Rightarrow> if now > impact_until im
                        then (bounce (radius P) now f s1)\<lparr>impactState := None\<rparr>
                        else bounce (radius P) now f s1
           | None \<Rightarrow> bounce (radius P) now f s1)"
    using assms(1,2,4) loop
    by (simp add: useFrame_def legacyStep_def Let_def assms(3) [symmetric] not_less)
  then show ?thesis
    by (cases "impactState s") (simp_all add: bounce_def Let_def assms(8) h)
qed

text \<open>The amended statement for a ball that hits the face at a speed above 1.\<close>

theorem legacy_bounce_witness:
  "\<not> keyboardControl legacyProps \<and> launched legacyProps
   \<and> lengthSq (velocity (legacyIntegrate (min (1 / 60) (1 / 60)) fastBall)) \<ge> 0.01
   \<and> nearbyFaces legacyProps (position (legacyIntegrate (min (1 / 60) (1 / 60)) fastBall))
       = [] @ upFace # []
   \<and> triggers (radius legacyProps)
        (position (legacyIntegrate (min (1 / 60) (1 / 60)) fastBall))
        (velocity (legacyIntegrate (min (1 / 60) (1 / 60)) fastBall)) upFace
   \<and> position (useFrame legacyProps noKeys 0 (1 / 60) fastBall) = vec (1 / 4) (1 / 4 + 0.001) (1 / 4)
   \<and> velocity (useFrame legacyProps noKeys 0 (1 / 60) fastBall) = vec 0 (349 / 300) 0
   \<and> highlights (useFrame legacyProps noKeys 0 (1 / 60) fastBall) = [Some 0]"
proof -
  let ?s1 = "legacyIntegrate (min (1 / 60) (1 / 60)) fastBall"
  have k: "\<not> keyboardControl legacyProps" and l: "launched legacyProps" by simp_all
  have sp: "lengthSq (velocity ?s1) \<ge> 0.01"
    unfolding legacy_fast by (simp add: vec_defs)
  have nb: "nearbyFaces legacyProps (position ?s1) = [] @ upFace # []"
    by (simp add: nearbyFaces_def)
  have pre: "\<forall>f'\<in>set []. \<not> triggers (radius legacyProps) (position ?s1) (velocity ?s1) f'"
    by simp
  have t: "triggers (radius legacyProps) (position ?s1) (velocity ?s1) upFace"
    unfolding legacy_fast
    by (simp add: triggers_def pointInTriangle_def vec_defs Let_def)
  have d: "1 / 5 - 349 / 18000 = dot (face_normal upFace) (sub (position ?s1) (face_a upFace))"
    unfolding legacy_fast by (simp add: vec_defs)
  have r: "reflect (vec 0 (- 349 / 300) 0) (face_normal upFace) = vec 0 (349 / 300) 0"
    by (simp add: reflect_def normalize_def vnormalize_def vec_defs Let_def)
  have p: "position ?s1 = vec (1 / 4) (1 / 5 - 349 / 18000) (1 / 4)"
    and v: "velocity ?s1 = vec 0 (- 349 / 300) 0"
    unfolding legacy_fast by simp_all
  from legacy_bounce [OF k l refl sp nb pre t d, of noKeys 0]
  show ?thesis
    using k l sp nb t unfolding p v r by (simp add: vec_defs)
qed

text \<open>
  C9 as stated fails for a slow ball: after the integration its velocity is
  \<open>(0, -19/300, 0)\<close>, with a squared speed below 0.01, and the face passes the three
  tests; the frame returns before the loop, so the velocity is not reflected, the ball
  is not moved out of the face and no face is highlighted.
\<close>

theorem legacy_bounce_counterexample:
  "launched legacyProps \<and> \<not> keyboardControl legacyProps
   \<and> triggers (radius legacyProps)
        (position (legacyIntegrate (min (1 / 60) (1 / 60)) slowBall))
        (velocity (legacyIntegrate (min (1 / 60) (1 / 60)) slowBall)) upFace
   \<and> velocity (useFrame legacyProps noKeys 0 (1 / 60) slowBall) = vec 0 (- 19 / 300) 0
   \<and> reflect (vec 0 (- 19 / 300) 0) (face_normal upFace) = vec 0 (19 / 300) 0
   \<and> position (useFrame legacyProps noKeys 0 (1 / 60) slowBall)
       = vec (1 / 4) (1 / 5 - 19 / 18000) (1 / 4)
   \<and> highlights (useFrame legacyProps noKeys 0 (1 / 60) slowBall) = []"
proof -
  have t: "triggers (radius legacyProps)
        (position (legacyIntegrate (min (1 / 60) (1 / 60)) slowBall))
        (velocity (legacyIntegrate (min (1 / 60) (1 / 60)) slowBall)) upFace"
    unfolding legacy_slow
    by (simp add: triggers_def pointInTriangle_def vec_defs Let_def)
  have r: "reflect (vec 0 (- 19 / 300) 0) (face_normal upFace) = vec 0 (19 / 300) 0"
    by (simp add: reflect_def normalize_def vnormalize_def vec_defs Let_def)
  have u: "useFrame legacyProps noKeys 0 (1 / 60) slowBall =
     slowBall\<lparr>velocity := vec 0 (- 19 / 300) 0,
               position := vec (1 / 4) (1 / 5 - 19 / 18000) (1 / 4)\<rparr>"
    unfolding useFrame_def legacyStep_def Let_def legacy_slow
    by (simp add: vec_defs)
  show ?thesis unfolding u using t r by simp
qed

section \<open>The terrain generator\<close>

text \<open>
  The equations of the four loops are used one unfolding at a time. The loops return the
  closed forms.
\<close>

declare vertexRow.simps [simp del] vertexGrid.simps [simp del]
  facesRow.simps [simp del] facesGrid.simps [simp del]

lemma vertexRow_closed:
  "vertexRow sz d h ty (sz / of_int d) i j row =
     row @ map (gridVertex sz d h ty i) [j..<nat (d + 1)]"
proof (induction "nat (d + 1) - j" arbitrary: j row)
  case 0
  then have "\<not> int j \<le> d" by linarith
  moreover have "[j..<nat (d + 1)] = []" using 0 by simp
  ultimately show ?case by (simp add: vertexRow.simps [of _ _ _ _ _ _ j])
next
  case (Suc k)
  then have le: "int j \<le> d" and k: "k = nat (d + 1) - Suc j" by linarith+
  have up: "[j..<nat (d + 1)] = j # [Suc j..<nat (d + 1)]"
    using le by (intro upt_conv_Cons) linarith
  show ?case
    using le Suc.hyps(1) [OF k]
    by (simp add: vertexRow.simps [of _ _ _ _ _ _ j] up gridVertex_def Let_def)
qed

lemma vertexGrid_closed:
  "vertexGrid sz d h ty (sz / of_int d) i vs =
     vs @ map (\<lambda>i. map (gridVertex sz d h ty i) [0..<nat (d + 1)]) [i..<nat (d + 1)]"
proof (induction "nat (d + 1) - i" arbitrary: i vs)
  case 0
  then have "\<not> int i \<le> d" by linarith
  moreover have "[i..<nat (d + 1)] = []" using 0 by simp
  ultimately show ?case by (simp add: vertexGrid.simps [of _ _ _ _ _ i])
next
  case (Suc k)
  then have le: "int i \<le> d" and k: "k = nat (d + 1) - Suc i" by linarith+
  have up: "[i..<nat (d + 1)] = i # [Suc i..<nat (d + 1)]"
    using le by (intro upt_conv_Cons) linarith
  show ?case
    using le Suc.hyps(1) [OF k]
    by (simp add: vertexGrid.simps [of _ _ _ _ _ i] up vertexRow_closed)
qed

lemma vertexAt_grid:
  "int i \<le> d \<Longrightarrow> int j \<le> d \<Longrightarrow>
   vertexAt (gridVertices sz d h ty) i j = Some (gridVertex sz d h ty i j)"
proof -
  assume "int i \<le> d" "int j \<le> d"
  then have "i < nat (d + 1)" "j < nat (d + 1)" by linarith+
  then show ?thesis by (simp add: vertexAt_def gridVertices_def)
qed

lemma facesRow_step:
  assumes "int i < d" and "int j < d"
  shows "facesRow (gridVertices sz d h ty) d i j (fs, 2 * (i * nat d + j)) =
     facesRow (gridVertices sz d h ty) d i (Suc j)
       (fs @ cellFaces sz d h ty i j, 2 * (i * nat d + Suc j))"
proof -
  have v: "vertexAt (gridVertices sz d h ty) i j = Some (gridVertex sz d h ty i j)"
    "vertexAt (gridVertices sz d h ty) (Suc i) j = Some (gridVertex sz d h ty (Suc i) j)"
    "vertexAt (gridVertices sz d h ty) i (Suc j) = Some (gridVertex sz d h ty i (Suc j))"
    "vertexAt (gridVertices sz d h ty) (Suc i) (Suc j) = Some (gridVertex sz d h ty (Suc i) (Suc j))"
    using assms by (simp_all add: vertexAt_grid)
  show ?thesis
    by (subst facesRow.simps) (simp add: assms v cellFaces_def Let_def)
qed

lemma facesRow_closed:
  "int i < d \<Longrightarrow> j \<le> nat d \<Longrightarrow>
   facesRow (gridVertices sz d h ty) d i j (fs, 2 * (i * nat d + j)) =
     Inr (fs @ concat (map (cellFaces sz d h ty i) [j..<nat d]), 2 * (i * nat d + nat d))"
proof (induction "nat d - j" arbitrary: j fs)
  case 0
  then have "\<not> int j < d" "j = nat d" by linarith+
  then show ?case by (subst facesRow.simps) simp
next
  case (Suc k)
  then have lt: "int j < d" and k: "k = nat d - Suc j" and j': "Suc j \<le> nat d" by linarith+
  have up: "[j..<nat d] = j # [Suc j..<nat d]"
    using lt by (intro upt_conv_Cons) linarith
  have "facesRow (gridVertices sz d h ty) d i j (fs, 2 * (i * nat d + j)) =
     facesRow (gridVertices sz d h ty) d i (Suc j)
       (fs @ cellFaces sz d h ty i j, 2 * (i * nat d + Suc j))"
    by (rule facesRow_step [OF Suc.prems(1) lt])
  also have "\<dots> = Inr ((fs @ cellFaces sz d h ty i j)
        @ concat (map (cellFaces sz d h ty i) [Suc j..<nat d]), 2 * (i * nat d + nat d))"
    by (rule Suc.hyps(1) [OF k Suc.prems(1) j'])
  finally show ?case by (simp add: up)
qed

lemma facesGrid_closed:
  "i \<le> nat d \<Longrightarrow>
   facesGrid (gridVertices sz d h ty) d i (fs, 2 * (i * nat d)) =
     Inr (fs @ concat (map (\<lambda>i. concat (map (cellFaces sz d h ty i) [0..<nat d])) [i..<nat d]),
          2 * (nat d * nat d))"
proof (induction "nat d - i" arbitrary: i fs)
  case 0
  then have "\<not> int i < d" "i = nat d" by linarith+
  then show ?case by (subst facesGrid.simps) simp
next
  case (Suc k)
  then have lt: "int i < d" and k: "k = nat d - Suc i" and i': "Suc i \<le> nat d" by linarith+
  have up: "[i..<nat d] = i # [Suc i..<nat d]"
    using lt by (intro upt_conv_Cons) linarith
  have row: "facesRow (gridVertices sz d h ty) d i 0 (fs, 2 * (i * nat d)) =
     Inr (fs @ concat (map (cellFaces sz d h ty i) [0..<nat d]), 2 * (Suc i * nat d))"
    using facesRow_closed [OF lt, of 0 sz h ty fs] by (simp add: add.commute)
  have "facesGrid (gridVertices sz d h ty) d i (fs, 2 * (i * nat d)) =
     facesGrid (gridVertices sz d h ty) d (Suc i)
       (fs @ concat (map (cellFaces sz d h ty i) [0..<nat d]), 2 * (Suc i * nat d))"
    by (subst facesGrid.simps) (simp add: lt row del: mult_Suc)
  also have "\<dots> = Inr ((fs @ concat (map (cellFaces sz d h ty i) [0..<nat d]))
        @ concat (map (\<lambda>i. concat (map (cellFaces sz d h ty i) [0..<nat d])) [Suc i..<nat d]),
          2 * (nat d * nat d))"
    by (rule Suc.hyps(1) [OF k i'])
  finally show ?case by (simp add: up)
qed

lemma buildTerrainFaces_closed:
  "buildTerrainFaces sz d h ty = Inr (gridFaces sz d h ty)"
proof -
  have "vertexGrid sz d h ty (sz / of_int d) 0 [] = gridVertices sz d h ty"
    by (simp add: vertexGrid_closed gridVertices_def)
  moreover have "facesGrid (gridVertices sz d h ty) d 0 ([], 0) =
      Inr (gridFaces sz d h ty, 2 * (nat d * nat d))"
    using facesGrid_closed [of 0 d sz h ty "[]"] by (simp add: gridFaces_def)
  ultimately show ?thesis by (simp add: buildTerrainFaces_def Let_def)
qed

















text \<open>
  The stored normal when all three products of the cross product are 0, as they are in
  the program for a cell whose \<open>step * step\<close> underflows.
\<close>

lemma vnormalize_zero:
  "vnormalize (vec 0 0 0) = vec 0 0 0"
  "triangleNormal a a a = vec 0 0 0"
  by (simp_all add: triangleNormal_def vnormalize_def vec_defs Let_def)

text \<open>
  C6, as amended. Called with a division count that is not positive, the terrain
  generator does not fail: there is no validation of the count, no face loop runs, and
  the call returns normally with the empty list of faces.
\<close>

theorem terrain_nonpositive_divisions:
  assumes "d \<le> 0"
  shows "buildTerrainFaces sz d h ty = Inr []"
  using assms by (simp add: buildTerrainFaces_closed gridFaces_def)

text \<open>The amended statement for a division count of \<open>-3\<close>.\<close>

theorem terrain_nonpositive_divisions_witness:
  "(- 3 :: int) \<le> 0 \<and> buildTerrainFaces 10 (- 3) 2.5 Hills = Inr []"
  using terrain_nonpositive_divisions [of "- 3" 10 "2.5" Hills] by simp

text \<open>
  C6 as stated fails for a division count of 0 with the default size, height scale and
  profile: the call returns the empty list and no error.
\<close>

theorem terrain_nonpositive_divisions_counterexample:
  "buildTerrainFaces 10 0 2.5 Rough = Inr []"
  by (simp add: buildTerrainFaces_closed gridFaces_def)

end
